theory Spec2Isabelle
  imports Main "HOL-Library.Sublist"
begin

section \<open>JavaScript primitives used by the router and the adapter\<close>

text \<open>
  Strings are lists of characters. \<open>startsWith s p\<close> is \<^verbatim>\<open>s.startsWith(p)\<close>.
\<close>

definition startsWith :: "string \<Rightarrow> string \<Rightarrow> bool" where
  "startsWith s p = (take (length p) s = p)"

text \<open>
  Decimal rendering of an integer, as a template literal renders an integer timestamp
  (\<^verbatim>\<open>Date.now()\<close>) or an array index.
\<close>

definition digitChar :: "int \<Rightarrow> char" where
  "digitChar d = char_of (48 + d)"

function showDigits :: "int \<Rightarrow> string" where
  "showDigits n =
     (if n < 10 then [digitChar n] else showDigits (n div 10) @ [digitChar (n mod 10)])"
  by pat_completeness auto
termination
  by (relation "measure nat") auto

declare showDigits.simps [simp del]

definition showInt :: "int \<Rightarrow> string" where
  "showInt i = (if i < 0 then CHR ''-'' # showDigits (- i) else showDigits i)"

definition isDigit :: "char \<Rightarrow> bool" where
  "isDigit c = (48 \<le> (of_char c :: nat) \<and> (of_char c :: nat) \<le> 57)"

definition digitVal :: "char \<Rightarrow> int" where
  "digitVal c = of_char c - 48"

definition parseDecimal :: "string \<Rightarrow> int" where
  "parseDecimal s = foldl (\<lambda>n c. 10 * n + digitVal c) 0 s"

text \<open>
  An object is modelled by its own properties in creation (insertion) order.
  \<^verbatim>\<open>Object.entries\<close> and \<^verbatim>\<open>Object.values\<close> enumerate the keys that are array
  indices (canonical decimal strings below \<open>2^32 - 1\<close>) first, in ascending numeric
  order, and then the other string keys in creation order.
\<close>

definition isArrayIndex :: "string \<Rightarrow> bool" where
  "isArrayIndex s =
     (s \<noteq> [] \<and> list_all isDigit s \<and> (s = ''0'' \<or> hd s \<noteq> CHR ''0'') \<and>
      parseDecimal s < 4294967295)"

definition objectEntries :: "(string \<times> 'v) list \<Rightarrow> (string \<times> 'v) list" where
  "objectEntries obj =
     sort_key (\<lambda>(k, v). parseDecimal k) (filter (\<lambda>(k, v). isArrayIndex k) obj) @
     filter (\<lambda>(k, v). \<not> isArrayIndex k) obj"

definition objectValues :: "(string \<times> 'v) list \<Rightarrow> 'v list" where
  "objectValues obj = map snd (objectEntries obj)"

text \<open>
  The values that \<^verbatim>\<open>lastError\<close> (typed \<^verbatim>\<open>any\<close>) can hold: its initial \<^verbatim>\<open>null\<close>, the
  optional string field \<^verbatim>\<open>response.error\<close>, or a caught value, which is a string or an
  error object with a name and a message.
\<close>

datatype js_error = JNull | JUndefined | JString string | JErrorObject string string

text \<open>
  \<^verbatim>\<open>${lastError?.message || lastError || 'Unknown error'}\<close>: a string has no
  \<^verbatim>\<open>message\<close>; an empty string is falsy; an error object is truthy and a template
  literal renders it with \<^verbatim>\<open>Error.prototype.toString\<close>, which gives the name when the
  message is empty.
\<close>

fun lastErrorText :: "js_error \<Rightarrow> string" where
  "lastErrorText JNull = ''Unknown error''"
| "lastErrorText JUndefined = ''Unknown error''"
| "lastErrorText (JString s) = (if s \<noteq> [] then s else ''Unknown error'')"
| "lastErrorText (JErrorObject name msg) = (if msg \<noteq> [] then msg else name)"

section \<open>Canonical protocol types\<close>

text \<open>
  The types of \<^verbatim>\<open>types.ts\<close> that the router and the adapter touch. Field names carry a
  prefix where a record would otherwise redeclare a name. The \<^verbatim>\<open>arguments\<close> of a tool
  call hold the text that \<^verbatim>\<open>JSON.stringify\<close> produces.
\<close>

record tool_call =
  tc_id :: string
  tc_type :: string
  tc_name :: string
  tc_arguments :: string

record openai_message =
  msg_role :: string
  msg_content :: "string option"
  msg_tool_calls :: "tool_call list option"

record choice =
  ch_index :: nat
  ch_message :: openai_message
  ch_finish_reason :: string

record openai_response =
  resp_model :: string
  resp_choices :: "choice list"

record delta =
  d_role :: "string option"
  d_content :: "string option"
  d_tool_calls :: "tool_call list option"

record stream_chunk =
  sc_model :: string
  sc_delta :: delta
  sc_finish_reason :: "string option"

text \<open>
  A frame written to the output stream: a serialized chunk, or the literal
  \<^verbatim>\<open>data: [DONE]\<close> sentinel.
\<close>

datatype frame = ChunkFrame stream_chunk | DoneFrame

text \<open>
  What the background task of a streaming call leaves behind: the frames written, in
  order, the values given to \<^verbatim>\<open>console.error\<close>, and whether the writer was closed.
\<close>

record stream_output =
  frames :: "frame list"
  errorLog :: "js_error list"
  closed :: bool

record provider_response =
  success :: bool
  response :: "openai_response option"
  stream :: "stream_output option"
  error :: "string option"
  statusCode :: "nat option"

record tool =
  tool_type :: string
  fn_name :: string
  fn_description :: "string option"
  fn_parameters :: "string option"

record openai_chat_request =
  messages :: "openai_message list"
  tools :: "tool list option"
  streamFlag :: "bool option"

section \<open>Router\<close>

record provider_config =
  provider :: string
  model :: string
  apiKeys :: "string list"

text \<open>
  \<^verbatim>\<open>RouteConfig\<close>: the routes object, as its own properties in insertion order.
\<close>

type_synonym route_config = "(string \<times> provider_config list) list"

datatype proxy_error = ProxyError string nat

definition normalizePath :: "string \<Rightarrow> string" where
  "normalizePath path = (if startsWith path ''/'' then path else ''/'' @ path)"

text \<open>
  \<^verbatim>\<open>Router.getProvidersForRoute\<close>. A provider list is an array and therefore truthy,
  also when it is empty, so the exact match and the default succeed whenever the
  property exists.
\<close>

definition getProvidersForRoute :: "route_config \<Rightarrow> string \<Rightarrow> proxy_error + provider_config list" where
  "getProvidersForRoute routes path =
     (let normalizedPath = normalizePath path in
      case map_of routes normalizedPath of
        Some providers \<Rightarrow> Inr providers
      | None \<Rightarrow>
          (case find (\<lambda>(route, providers). startsWith normalizedPath route) (objectEntries routes) of
             Some (route, providers) \<Rightarrow> Inr providers
           | None \<Rightarrow>
               (case objectValues routes of
                  defaultRoute # _ \<Rightarrow> Inr defaultRoute
                | [] \<Rightarrow> Inl (ProxyError (''No providers configured for route: '' @ path) 404))))"

text \<open>
  One provider attempt, \<^verbatim>\<open>new TokenManager(config, env).executeWithRotation(request)\<close>:
  it returns a response or raises. The token manager is a parameter of the model: a
  function of the configuration, the request and the state of the outside world, which
  it may change.
\<close>

datatype attempt = Returned provider_response | Raised js_error

type_synonym 'w rotator =
  "provider_config \<Rightarrow> openai_chat_request \<Rightarrow> 'w \<Rightarrow> attempt \<times> 'w"

definition errorValue :: "provider_response \<Rightarrow> js_error" where
  "errorValue r = (case error r of None \<Rightarrow> JUndefined | Some e \<Rightarrow> JString e)"

definition allFailed :: "js_error \<Rightarrow> provider_response" where
  "allFailed lastError =
     \<lparr>success = False, response = None, stream = None,
      error = Some (''All providers failed. Last error: '' @ lastErrorText lastError),
      statusCode = Some 500\<rparr>"

text \<open>
  The loop of \<^verbatim>\<open>Router.executeWithFallback\<close> over the providers still to try. Its
  state is \<^verbatim>\<open>lastError\<close>, the outside world, and the configurations whose token
  manager has been invoked so far, in order.
\<close>

fun tryProviders ::
  "'w rotator \<Rightarrow> openai_chat_request \<Rightarrow> provider_config list \<Rightarrow> js_error \<Rightarrow> 'w \<Rightarrow>
   provider_config list \<Rightarrow> provider_response \<times> 'w \<times> provider_config list" where
  "tryProviders rot request [] lastError w invoked = (allFailed lastError, w, invoked)"
| "tryProviders rot request (config # rest) lastError w invoked =
     (case rot config request w of
        (Returned resp, w') \<Rightarrow>
          if success resp then (resp, w', invoked @ [config])
          else tryProviders rot request rest (errorValue resp) w' (invoked @ [config])
      | (Raised err, w') \<Rightarrow> tryProviders rot request rest err w' (invoked @ [config]))"

text \<open>
  \<^verbatim>\<open>Router.executeWithFallback\<close>: the result (\<open>Inl\<close> when route resolution throws),
  the outside world afterwards, and the configurations invoked.
\<close>

definition executeWithFallback ::
  "'w rotator \<Rightarrow> route_config \<Rightarrow> string \<Rightarrow> openai_chat_request \<Rightarrow> 'w \<Rightarrow>
   (proxy_error + provider_response) \<times> 'w \<times> provider_config list" where
  "executeWithFallback rot routes path request w =
     (case getProvidersForRoute routes path of
        Inl e \<Rightarrow> (Inl e, w, [])
      | Inr providers \<Rightarrow>
          (case tryProviders rot request providers JNull w [] of
             (r, w', invoked) \<Rightarrow> (Inr r, w', invoked)))"

text \<open>
  The outcomes of invoking the providers of a list one after the other, whatever each
  returns; used to say which attempts fail.
\<close>

fun attempts :: "'w rotator \<Rightarrow> openai_chat_request \<Rightarrow> provider_config list \<Rightarrow> 'w \<Rightarrow> attempt list" where
  "attempts rot request [] w = []"
| "attempts rot request (config # rest) w =
     (case rot config request w of (a, w') \<Rightarrow> a # attempts rot request rest w')"

fun failed :: "attempt \<Rightarrow> bool" where
  "failed (Returned resp) = (\<not> success resp)"
| "failed (Raised err) = True"

fun observedError :: "attempt \<Rightarrow> js_error" where
  "observedError (Returned resp) = errorValue resp"
| "observedError (Raised err) = err"

text \<open>The text an observed error carries: the string itself, or the message of an error object.\<close>

fun errorMessage :: "js_error \<Rightarrow> string" where
  "errorMessage (JString s) = s"
| "errorMessage (JErrorObject name msg) = msg"
| "errorMessage JNull = []"
| "errorMessage JUndefined = []"

text \<open>The outside world after invoking the providers of a list one after the other.\<close>

fun worldAfter :: "'w rotator \<Rightarrow> openai_chat_request \<Rightarrow> provider_config list \<Rightarrow> 'w \<Rightarrow> 'w" where
  "worldAfter rot request [] w = w"
| "worldAfter rot request (config # rest) w =
     worldAfter rot request rest (snd (rot config request w))"

section \<open>Cloudflare AI adapter\<close>

text \<open>
  What the binding hands back: an upstream tool call has a name and arguments (held as
  the text \<^verbatim>\<open>JSON.stringify\<close> gives); a non-streaming result is a string or an object
  with optional \<^verbatim>\<open>response\<close> and \<^verbatim>\<open>tool_calls\<close>.
\<close>

record cf_tool_call =
  cf_name :: string
  cf_arguments :: string

datatype upstream_result =
  UpString string
| UpObject "string option" "cf_tool_call list option"

text \<open>
  \<^verbatim>\<open>convertToolCalls\<close>: \<open>now index\<close> is what \<^verbatim>\<open>Date.now()\<close> returns while the call at
  \<open>index\<close> is converted; the readings need not agree.
\<close>

definition convertToolCalls :: "(nat \<Rightarrow> int) \<Rightarrow> cf_tool_call list \<Rightarrow> tool_call list" where
  "convertToolCalls now cfToolCalls =
     map (\<lambda>(index, call).
            \<lparr>tc_id = ''call_'' @ showInt (now index) @ ''_'' @ showInt (int index),
             tc_type = ''function'',
             tc_name = cf_name call,
             tc_arguments = cf_arguments call\<rparr>)
         (enumerate 0 cfToolCalls)"

text \<open>\<^verbatim>\<open>toolCalls && toolCalls.length > 0\<close>\<close>

fun hasToolCalls :: "cf_tool_call list option \<Rightarrow> bool" where
  "hasToolCalls None = False"
| "hasToolCalls (Some calls) = (length calls > 0)"

text \<open>
  Modelled from the spec: \<^verbatim>\<open>createOpenAIResponse\<close> of \<^verbatim>\<open>utils/response-mapper\<close>, which
  is not among the sources. The spec has the normalizer build the canonical envelope
  with \<^verbatim>\<open>choices[0].message.{role, content, tool_calls?}\<close> and
  \<^verbatim>\<open>choices[0].finish_reason\<close>, the finish reason being \<^verbatim>\<open>stop\<close> unless tool calls are
  present; the adapter calls it with the content and the model only.
\<close>

definition createOpenAIResponse :: "string \<Rightarrow> string \<Rightarrow> openai_response" where
  "createOpenAIResponse content mdl =
     \<lparr>resp_model = mdl,
      resp_choices =
        [\<lparr>ch_index = 0,
          ch_message = \<lparr>msg_role = ''assistant'', msg_content = Some content,
                        msg_tool_calls = None\<rparr>,
          ch_finish_reason = ''stop''\<rparr>]\<rparr>"

text \<open>
  Modelled from the spec: \<^verbatim>\<open>createStreamChunk\<close> of \<^verbatim>\<open>utils/response-mapper\<close>, which is
  not among the sources. The spec has it build one canonical chunk from a delta, the
  model and an optional finish reason; the chunk is kept structured here instead of
  serialized.
\<close>

definition createStreamChunk :: "delta \<Rightarrow> string \<Rightarrow> string option \<Rightarrow> stream_chunk" where
  "createStreamChunk d mdl finishReason =
     \<lparr>sc_model = mdl, sc_delta = d, sc_finish_reason = finishReason\<rparr>"

text \<open>The content that \<^verbatim>\<open>handleNonStream\<close> extracts, and \<^verbatim>\<open>response.tool_calls\<close>.\<close>

fun upstreamContent :: "upstream_result \<Rightarrow> string" where
  "upstreamContent (UpString s) = s"
| "upstreamContent (UpObject None calls) = []"
| "upstreamContent (UpObject (Some text) calls) = text"

fun upstreamToolCalls :: "upstream_result \<Rightarrow> cf_tool_call list option" where
  "upstreamToolCalls (UpString s) = None"
| "upstreamToolCalls (UpObject text calls) = calls"

text \<open>
  \<^verbatim>\<open>handleNonStream\<close>, from the upstream result on. The three assignments go through
  \<^verbatim>\<open>choices[0]\<close>, which raises a TypeError if there is no first choice.
\<close>

definition handleNonStream :: "(nat \<Rightarrow> int) \<Rightarrow> string \<Rightarrow> upstream_result \<Rightarrow> js_error + provider_response" where
  "handleNonStream now mdl upstream =
     (let content = upstreamContent upstream;
          openAIResponse = createOpenAIResponse content mdl
      in if hasToolCalls (upstreamToolCalls upstream) then
           (case resp_choices openAIResponse of
              [] \<Rightarrow> Inl (JErrorObject ''TypeError'' ''Cannot read properties of undefined'')
            | c # cs \<Rightarrow>
                Inr \<lparr>success = True,
                     response = Some (openAIResponse
                       \<lparr>resp_choices :=
                          c\<lparr>ch_message := (ch_message c)
                               \<lparr>msg_content := None,
                                msg_tool_calls :=
                                  Some (convertToolCalls now (the (upstreamToolCalls upstream)))\<rparr>,
                            ch_finish_reason := ''tool_calls''\<rparr> # cs\<rparr>),
                     stream = None, error = None, statusCode = None\<rparr>)
         else Inr \<lparr>success = True, response = Some openAIResponse,
                   stream = None, error = None, statusCode = None\<rparr>)"

text \<open>
  What one read of the upstream stream gives: a value (a string, an object with optional
  \<^verbatim>\<open>response\<close> and \<^verbatim>\<open>tool_calls\<close>, or bytes, held as the text they decode to) or a
  fault. The stream is the list of reads before \<^verbatim>\<open>done\<close>.
\<close>

datatype cf_chunk =
  ChunkString string
| ChunkObject "string option" "cf_tool_call list option"
| ChunkBytes string

datatype read_event = ReadValue cf_chunk | ReadFault js_error

text \<open>
  The parse of one chunk (text and tool calls). An object whose \<^verbatim>\<open>response\<close> is missing
  or empty falls through to \<^verbatim>\<open>decoder.decode(value)\<close>, which raises a TypeError on
  anything that is not a buffer; its tool calls are not looked at.
\<close>

fun parseChunk :: "cf_chunk \<Rightarrow> js_error + (string \<times> cf_tool_call list option)" where
  "parseChunk (ChunkString s) = Inr (s, None)"
| "parseChunk (ChunkObject None calls) =
     Inl (JErrorObject ''TypeError'' ''decode: argument is not a buffer'')"
| "parseChunk (ChunkObject (Some text) calls) =
     (if text \<noteq> [] then Inr (text, calls)
      else Inl (JErrorObject ''TypeError'' ''decode: argument is not a buffer''))"
| "parseChunk (ChunkBytes text) = Inr (text, None)"

text \<open>
  The delta written for one parsed chunk, if any: tool calls when there are some, else
  the text when it is not empty, else nothing.
\<close>

definition chunkDelta :: "(nat \<Rightarrow> int) \<Rightarrow> bool \<Rightarrow> string \<Rightarrow> cf_tool_call list option \<Rightarrow> delta option" where
  "chunkDelta now isFirst text toolCalls =
     (if hasToolCalls toolCalls then
        Some \<lparr>d_role = (if isFirst then Some ''assistant'' else None),
              d_content = None,
              d_tool_calls = Some (convertToolCalls now (the toolCalls))\<rparr>
      else if text \<noteq> [] then
        Some \<lparr>d_role = (if isFirst then Some ''assistant'' else None),
              d_content = Some text,
              d_tool_calls = None\<rparr>
      else None)"

text \<open>
  The read loop of \<^verbatim>\<open>handleStream\<close>. \<open>clock n\<close> gives the readings of \<^verbatim>\<open>Date.now()\<close>
  while the \<open>n\<close>-th read is processed. The result is the fault that ended the loop, if
  any, and the frames written.
\<close>

fun pump ::
  "(nat \<Rightarrow> nat \<Rightarrow> int) \<Rightarrow> string \<Rightarrow> read_event list \<Rightarrow> nat \<Rightarrow> bool \<Rightarrow> frame list \<Rightarrow>
   js_error option \<times> frame list" where
  "pump clock mdl [] n isFirst written = (None, written)"
| "pump clock mdl (ReadFault e # rest) n isFirst written = (Some e, written)"
| "pump clock mdl (ReadValue v # rest) n isFirst written =
     (case parseChunk v of
        Inl e \<Rightarrow> (Some e, written)
      | Inr (text, toolCalls) \<Rightarrow>
          (case chunkDelta (clock n) isFirst text toolCalls of
             Some d \<Rightarrow>
               pump clock mdl rest (Suc n) False
                 (written @ [ChunkFrame (createStreamChunk d mdl None)])
           | None \<Rightarrow> pump clock mdl rest (Suc n) isFirst written))"

text \<open>The parameters built by \<^verbatim>\<open>chat\<close> (sampling parameters left out).\<close>

record cf_message =
  cfm_role :: string
  cfm_content :: string

record cf_params =
  p_messages :: "cf_message list"
  p_tools :: "tool list option"
  p_stream :: bool

definition emptyDelta :: delta where
  "emptyDelta = \<lparr>d_role = None, d_content = None, d_tool_calls = None\<rparr>"

text \<open>
  \<^verbatim>\<open>handleStream\<close>, from the upstream stream on. The response is returned at once; its
  stream field holds what the background task writes.
\<close>

definition handleStream :: "(nat \<Rightarrow> nat \<Rightarrow> int) \<Rightarrow> string \<Rightarrow> cf_params \<Rightarrow> read_event list \<Rightarrow> provider_response" where
  "handleStream clock mdl params cfStream =
     \<lparr>success = True, response = None,
      stream = Some
        (case pump clock mdl cfStream 0 True [] of
           (None, written) \<Rightarrow>
             (let finishReason = (if p_tools params \<noteq> None then ''tool_calls'' else ''stop'');
                  finishChunk = createStreamChunk emptyDelta mdl (Some finishReason)
              in \<lparr>frames = written @ [ChunkFrame finishChunk, DoneFrame],
                  errorLog = [], closed = True\<rparr>)
         | (Some e, written) \<Rightarrow> \<lparr>frames = written, errorLog = [e], closed = True\<rparr>),
      error = None, statusCode = None\<rparr>"

definition stringOrEmpty :: "string option \<Rightarrow> string" where
  "stringOrEmpty s = (case s of None \<Rightarrow> [] | Some t \<Rightarrow> t)"

definition convertMessages :: "openai_message list \<Rightarrow> cf_message list" where
  "convertMessages msgs =
     map (\<lambda>msg.
        if msg_role msg = ''tool'' then
          \<lparr>cfm_role = ''user'', cfm_content = stringOrEmpty (msg_content msg)\<rparr>
        else if msg_role msg = ''assistant'' \<and> msg_tool_calls msg \<noteq> None then
          \<lparr>cfm_role = ''assistant'', cfm_content = stringOrEmpty (msg_content msg)\<rparr>
        else
          \<lparr>cfm_role = (if msg_role msg = ''system'' then ''user'' else msg_role msg),
           cfm_content = stringOrEmpty (msg_content msg)\<rparr>) msgs"

text \<open>A string in double quotes, for JSON held as text.\<close>

definition quoted :: "string \<Rightarrow> string" where
  "quoted s = CHR 0x22 # s @ [CHR 0x22]"

text \<open>
  \<^verbatim>\<open>convertTools\<close>; a missing \<^verbatim>\<open>parameters\<close> becomes the empty object schema, held as
  text.
\<close>

definition convertTools :: "tool list \<Rightarrow> tool list" where
  "convertTools ts =
     map (\<lambda>t.
        if tool_type t = ''function'' then
          \<lparr>tool_type = ''function'', fn_name = fn_name t,
           fn_description = Some (stringOrEmpty (fn_description t)),
           fn_parameters =
             Some (case fn_parameters t of
                     None \<Rightarrow>
                       ''{'' @ quoted ''type'' @ '':'' @ quoted ''object'' @ '','' @
                       quoted ''properties'' @ '':{}}''
                   | Some ps \<Rightarrow> ps)\<rparr>
        else t) ts"

text \<open>The parameters that \<^verbatim>\<open>chat\<close> passes on: tools only when the request has at least one.\<close>

definition chatParams :: "openai_chat_request \<Rightarrow> cf_params" where
  "chatParams request =
     \<lparr>p_messages = convertMessages (messages request),
      p_tools = (case tools request of
                   None \<Rightarrow> None
                 | Some ts \<Rightarrow> if length ts > 0 then Some (convertTools ts) else None),
      p_stream = (streamFlag request = Some True)\<rparr>"

text \<open>Notions used to state the properties of a frame sequence.\<close>

fun isTerminal :: "frame \<Rightarrow> bool" where
  "isTerminal (ChunkFrame c) = (sc_finish_reason c \<noteq> None)"
| "isTerminal DoneFrame = False"

fun isContent :: "frame \<Rightarrow> bool" where
  "isContent (ChunkFrame c) = (sc_finish_reason c = None)"
| "isContent DoneFrame = False"


text \<open>A read that the loop gets past: a value whose parse raises nothing.\<close>

fun consumable :: "read_event \<Rightarrow> bool" where
  "consumable (ReadFault e) = False"
| "consumable (ReadValue v) = (case parseChunk v of Inl e \<Rightarrow> False | Inr p \<Rightarrow> True)"

text \<open>
  What a chunk carries, for stating which frame answers it: its text, its tool calls, and
  the chunks read before the first fault.
\<close>

fun chunkText :: "cf_chunk \<Rightarrow> string" where
  "chunkText (ChunkString s) = s"
| "chunkText (ChunkObject body calls) = stringOrEmpty body"
| "chunkText (ChunkBytes body) = body"

fun chunkToolCalls :: "cf_chunk \<Rightarrow> cf_tool_call list" where
  "chunkToolCalls (ChunkObject body (Some calls)) = calls"
| "chunkToolCalls v = []"

definition carriesData :: "cf_chunk \<Rightarrow> bool" where
  "carriesData v = (chunkToolCalls v \<noteq> [] \<or> chunkText v \<noteq> [])"

fun valuesRead :: "read_event list \<Rightarrow> cf_chunk list" where
  "valuesRead [] = []"
| "valuesRead (ReadFault e # rest) = []"
| "valuesRead (ReadValue v # rest) =
     (case parseChunk v of Inl e \<Rightarrow> [] | Inr p \<Rightarrow> v # valuesRead rest)"


text \<open>
  \<open>emitsFor v f\<close>: the frame \<open>f\<close> is a chunk without finish reason that carries the tool
  calls of \<open>v\<close> (names and arguments) and no content when \<open>v\<close> has tool calls, and the text
  of \<open>v\<close> and no tool calls otherwise.
\<close>

fun emitsFor :: "cf_chunk \<Rightarrow> frame \<Rightarrow> bool" where
  "emitsFor v DoneFrame = False"
| "emitsFor v (ChunkFrame c) =
     (sc_finish_reason c = None \<and>
      (if chunkToolCalls v \<noteq> [] then
         d_content (sc_delta c) = None \<and>
         map_option (map (\<lambda>t. (tc_name t, tc_arguments t))) (d_tool_calls (sc_delta c)) =
           Some (map (\<lambda>t. (cf_name t, cf_arguments t)) (chunkToolCalls v))
       else d_content (sc_delta c) = Some (chunkText v) \<and> d_tool_calls (sc_delta c) = None))"


section \<open>Example values\<close>

definition cloudflareConfig :: provider_config where
  "cloudflareConfig = \<lparr>provider = ''cloudflare-ai'', model = ''llama-3'', apiKeys = [''k1'']\<rparr>"

definition anthropicConfig :: provider_config where
  "anthropicConfig = \<lparr>provider = ''anthropic'', model = ''claude'', apiKeys = [''k2'']\<rparr>"

definition openaiConfig :: provider_config where
  "openaiConfig = \<lparr>provider = ''openai'', model = ''gpt'', apiKeys = [''k3'', ''k4'']\<rparr>"

definition plainRequest :: openai_chat_request where
  "plainRequest =
     \<lparr>messages = [\<lparr>msg_role = ''user'', msg_content = Some ''2+2'', msg_tool_calls = None\<rparr>],
      tools = None, streamFlag = Some False\<rparr>"

definition quotaFailure :: provider_response where
  "quotaFailure =
     \<lparr>success = False, response = None, stream = None,
      error = Some ''quota exceeded'', statusCode = Some 429\<rparr>"

definition answer :: provider_response where
  "answer =
     \<lparr>success = True, response = Some (createOpenAIResponse ''4'' ''gpt''),
      stream = None, error = None, statusCode = None\<rparr>"

text \<open>
  A token manager for the examples: Cloudflare returns a failure, Anthropic raises,
  anything else answers. The world counts the invocations.
\<close>

definition exampleRotator :: "nat rotator" where
  "exampleRotator config request w =
     (if provider config = ''cloudflare-ai'' then (Returned quotaFailure, Suc w)
      else if provider config = ''anthropic'' then
        (Raised (JErrorObject ''Error'' ''network down''), Suc w)
      else (Returned answer, Suc w))"

definition weatherCall :: cf_tool_call where
  "weatherCall =
     \<lparr>cf_name = ''get_weather'',
      cf_arguments = ''{'' @ quoted ''location'' @ '':'' @ quoted ''Paris'' @ ''}''\<rparr>"

definition timeCall :: cf_tool_call where
  "timeCall = \<lparr>cf_name = ''get_time'', cf_arguments = ''{}''\<rparr>"

definition weatherTool :: tool where
  "weatherTool =
     \<lparr>tool_type = ''function'', fn_name = ''get_weather'',
      fn_description = None, fn_parameters = None\<rparr>"

definition toolRequest :: openai_chat_request where
  "toolRequest =
     \<lparr>messages = [\<lparr>msg_role = ''user'', msg_content = Some ''weather?'', msg_tool_calls = None\<rparr>],
      tools = Some [weatherTool], streamFlag = Some True\<rparr>"

definition streamRequest :: openai_chat_request where
  "streamRequest =
     \<lparr>messages = [\<lparr>msg_role = ''user'', msg_content = Some ''hi'', msg_tool_calls = None\<rparr>],
      tools = None, streamFlag = Some True\<rparr>"

section \<open>Route resolution\<close>

lemma startsWith_prefix: "startsWith s p \<longleftrightarrow> prefix p s"
  unfolding startsWith_def prefix_def
  by (metis append_eq_conv_conj append_take_drop_id)

lemma normalizePath_slash: "\<exists>r. normalizePath path = CHR ''/'' # r"
  by (cases path) (auto simp: normalizePath_def startsWith_def)

lemma isDigit_slash: "\<not> isDigit CHR ''/''"
  by (simp add: isDigit_def)

lemma arrayIndex_not_prefix:
  assumes "isArrayIndex k"
  shows "\<not> startsWith (CHR ''/'' # r) k"
proof
  assume sw: "startsWith (CHR ''/'' # r) k"
  from assms obtain c cs where k: "k = c # cs" and d: "isDigit c"
    by (cases k) (auto simp: isArrayIndex_def)
  from sw k have "c = CHR ''/''" by (simp add: startsWith_def)
  with d isDigit_slash show False by simp
qed

lemma find_append_list:
  "find P (xs @ ys) = (case find P xs of None \<Rightarrow> find P ys | Some x \<Rightarrow> Some x)"
  by (induction xs) auto

lemma find_filter_superset:
  "(\<And>x. x \<in> set xs \<Longrightarrow> P x \<Longrightarrow> Q x) \<Longrightarrow> find P (filter Q xs) = find P xs"
  by (induction xs) auto

lemma find_objectEntries:
  assumes "\<And>k v. (k, v) \<in> set obj \<Longrightarrow> isArrayIndex k \<Longrightarrow> \<not> P (k, v)"
  shows "find P (objectEntries obj) = find P obj"
proof -
  have "find P (sort_key (\<lambda>(k, v). parseDecimal k) (filter (\<lambda>(k, v). isArrayIndex k) obj)) = None"
    using assms by (auto simp: find_None_iff)
  moreover have "find P (filter (\<lambda>(k, v). \<not> isArrayIndex k) obj) = find P obj"
    using assms by (intro find_filter_superset) auto
  ultimately show ?thesis
    by (simp add: objectEntries_def find_append_list)
qed

text \<open>
  A key that is an array index starts with a digit, so it is never a prefix of a
  normalized path: the prefix search sees the matching routes in insertion order.
\<close>

lemma find_route_insertion_order:
  "find (\<lambda>(route, providers). startsWith (normalizePath path) route) (objectEntries routes) =
   find (\<lambda>(route, providers). prefix route (normalizePath path)) routes"
proof -
  obtain r where r: "normalizePath path = CHR ''/'' # r"
    using normalizePath_slash by blast
  have "find (\<lambda>(route, providers). startsWith (normalizePath path) route) (objectEntries routes) =
        find (\<lambda>(route, providers). startsWith (normalizePath path) route) routes"
    by (rule find_objectEntries) (simp add: r arrayIndex_not_prefix)
  then show ?thesis by (simp add: startsWith_prefix)
qed

lemma set_objectEntries: "set (objectEntries obj) = set obj"
  by (auto simp: objectEntries_def)

lemma objectEntries_no_index:
  "\<forall>(k, v) \<in> set obj. \<not> isArrayIndex k \<Longrightarrow> objectEntries obj = obj"
proof -
  assume a: "\<forall>(k, v) \<in> set obj. \<not> isArrayIndex k"
  then have "filter (\<lambda>(k, v). isArrayIndex k) obj = []"
    by (auto simp: filter_empty_conv)
  moreover from a have "filter (\<lambda>(k, v). \<not> isArrayIndex k) obj = obj"
    by (auto simp: filter_id_conv)
  ultimately show ?thesis by (simp add: objectEntries_def)
qed

lemma default_route:
  assumes "map_of routes (normalizePath path) = None"
    and "\<forall>(route, providers) \<in> set routes. \<not> prefix route (normalizePath path)"
  shows "getProvidersForRoute routes path =
     (case objectEntries routes of
        [] \<Rightarrow> Inl (ProxyError (''No providers configured for route: '' @ path) 404)
      | (route, providers) # _ \<Rightarrow> Inr providers)"
proof -
  from assms(2) have "find (\<lambda>(route, providers). prefix route (normalizePath path)) routes = None"
    by (auto simp: find_None_iff)
  with assms(1) show ?thesis
    by (auto simp: getProvidersForRoute_def find_route_insertion_order objectValues_def
             split: list.splits)
qed

lemmas route_eval =
  objectEntries_def objectValues_def isArrayIndex_def isDigit_def parseDecimal_def
  digitVal_def normalizePath_def startsWith_def getProvidersForRoute_def

text \<open>
  C7. When the normalized path has no exact match but some route key is a prefix of it,
  resolution returns the provider list of the first such route in insertion order. The
  result is a function of the table and the path.
\<close>

theorem prefix_route_first_in_insertion_order:
  assumes "map_of routes (normalizePath path) = None"
    and "\<exists>(route, providers) \<in> set routes. prefix route (normalizePath path)"
  shows "\<exists>route providers.
           find (\<lambda>(route, providers). prefix route (normalizePath path)) routes =
             Some (route, providers) \<and>
           getProvidersForRoute routes path = Inr providers"
proof -
  from assms(2) obtain route providers
    where f: "find (\<lambda>(route, providers). prefix route (normalizePath path)) routes =
                Some (route, providers)"
    by (cases "find (\<lambda>(route, providers). prefix route (normalizePath path)) routes")
       (auto simp: find_None_iff)
  with assms(1) have "getProvidersForRoute routes path = Inr providers"
    by (simp add: getProvidersForRoute_def find_route_insertion_order)
  with f show ?thesis by blast
qed

theorem prefix_route_first_in_insertion_order_witness:
  "map_of [(''/api'', [cloudflareConfig]), (''7'', []), (''/api/v1'', [openaiConfig])]
     (normalizePath ''api/v1/chat'') = None \<and>
   prefix ''/api'' (normalizePath ''api/v1/chat'') \<and>
   prefix ''/api/v1'' (normalizePath ''api/v1/chat'') \<and>
   getProvidersForRoute [(''/api'', [cloudflareConfig]), (''7'', []), (''/api/v1'', [openaiConfig])]
     ''api/v1/chat'' = Inr [cloudflareConfig]"
  using prefix_route_first_in_insertion_order
    [of "[(''/api'', [cloudflareConfig]), (''7'', []), (''/api/v1'', [openaiConfig])]"
        "''api/v1/chat''"]
  by (simp add: route_eval)

text \<open>
  C8, as the code has it. When the normalized path has no exact match and no route key is
  a prefix of it: an empty table gives a \<open>ProxyError\<close> with status 404; a non-empty table
  gives the provider list of the first route in the enumeration order of the table,
  which is the first-inserted route when no route key is an array index.
\<close>

theorem default_route_or_not_found:
  assumes "map_of routes (normalizePath path) = None"
    and "\<forall>(route, providers) \<in> set routes. \<not> prefix route (normalizePath path)"
  shows "(routes = [] \<longrightarrow>
            getProvidersForRoute routes path =
              Inl (ProxyError (''No providers configured for route: '' @ path) 404)) \<and>
         (routes \<noteq> [] \<longrightarrow>
            getProvidersForRoute routes path = Inr (snd (hd (objectEntries routes)))) \<and>
         (routes \<noteq> [] \<and> (\<forall>(route, providers) \<in> set routes. \<not> isArrayIndex route) \<longrightarrow>
            getProvidersForRoute routes path = Inr (snd (hd routes)))"
proof -
  note d = default_route [OF assms]
  have 1: "routes = [] \<longrightarrow> getProvidersForRoute routes path =
              Inl (ProxyError (''No providers configured for route: '' @ path) 404)"
    using d by (auto simp: objectEntries_def)
  have 2: "routes \<noteq> [] \<longrightarrow>
             getProvidersForRoute routes path = Inr (snd (hd (objectEntries routes)))"
  proof
    assume "routes \<noteq> []"
    then have "objectEntries routes \<noteq> []"
      using set_objectEntries [of routes] by (metis set_empty)
    then show "getProvidersForRoute routes path = Inr (snd (hd (objectEntries routes)))"
      using d by (cases "objectEntries routes") auto
  qed
  have 3: "routes \<noteq> [] \<and> (\<forall>(route, providers) \<in> set routes. \<not> isArrayIndex route) \<longrightarrow>
             getProvidersForRoute routes path = Inr (snd (hd routes))"
    using 2 by (auto simp: objectEntries_no_index)
  from 1 2 3 show ?thesis by blast
qed

theorem default_route_or_not_found_witness:
  "getProvidersForRoute [(''/fast'', [cloudflareConfig]), (''/deep'', [openaiConfig])] ''/x'' =
     Inr [cloudflareConfig] \<and>
   getProvidersForRoute [(''/fast'', [cloudflareConfig]), (''7'', [openaiConfig])] ''/x'' =
     Inr [openaiConfig] \<and>
   getProvidersForRoute [] ''/x'' =
     Inl (ProxyError ''No providers configured for route: /x'' 404)"
  using default_route_or_not_found
      [of "[(''/fast'', [cloudflareConfig]), (''/deep'', [openaiConfig])]" "''/x''"]
    default_route_or_not_found
      [of "[(''/fast'', [cloudflareConfig]), (''7'', [openaiConfig])]" "''/x''"]
    default_route_or_not_found [of "[]" "''/x''"]
  by (simp add: route_eval)

text \<open>
  C8 as stated fails: with the routes \<^verbatim>\<open>{"/fast": [cloudflare], "7": [openai]}\<close> the path
  \<^verbatim>\<open>/x\<close> has no exact and no prefix match, the first-inserted route is \<^verbatim>\<open>/fast\<close>, and
  \<^verbatim>\<open>Object.values(this.routes)[0]\<close> is the list of \<^verbatim>\<open>7\<close>, an array index, which is
  enumerated first.
\<close>

theorem first_inserted_default_counterexample:
  "map_of [(''/fast'', [cloudflareConfig]), (''7'', [openaiConfig])] (normalizePath ''/x'') = None \<and>
   \<not> prefix ''/fast'' (normalizePath ''/x'') \<and> \<not> prefix ''7'' (normalizePath ''/x'') \<and>
   snd (hd [(''/fast'', [cloudflareConfig]), (''7'', [openaiConfig])]) = [cloudflareConfig] \<and>
   getProvidersForRoute [(''/fast'', [cloudflareConfig]), (''7'', [openaiConfig])] ''/x'' =
     Inr [openaiConfig] \<and>
   [openaiConfig] \<noteq> [cloudflareConfig]"
  by (simp add: route_eval cloudflareConfig_def openaiConfig_def)

section \<open>Fallback over the providers of a route\<close>

lemma length_attempts: "length (attempts rot request ps w) = length ps"
  by (induction ps arbitrary: w) (auto split: prod.splits)

lemma tryProviders_first_success:
  assumes "M < length ps"
    and "attempts rot request (take (Suc M) ps) w = fs @ [Returned r]"
    and "list_all failed fs" and "success r"
  shows "tryProviders rot request ps lastError w invoked =
           (r, worldAfter rot request (take (Suc M) ps) w, invoked @ take (Suc M) ps)"
  using assms
proof (induction ps arbitrary: M w lastError invoked fs)
  case Nil
  then show ?case by simp
next
  case (Cons config rest)
  obtain a w' where step: "rot config request w = (a, w')"
    by (cases "rot config request w")
  show ?case
  proof (cases M)
    case 0
    with Cons.prems step have "a = Returned r" by simp
    with step 0 Cons.prems show ?thesis by simp
  next
    case (Suc m)
    with Cons.prems have m: "m < length rest" by simp
    from Cons.prems(2) step Suc
    have eq: "a # attempts rot request (take (Suc m) rest) w' = fs @ [Returned r]" by simp
    have "length (attempts rot request (take (Suc m) rest) w') = Suc m"
      using m by (simp add: length_attempts)
    with eq obtain fs' where fs: "fs = a # fs'"
      and rest: "attempts rot request (take (Suc m) rest) w' = fs' @ [Returned r]"
      by (cases fs) auto
    from fs Cons.prems(3) have fa: "failed a" and ffs: "list_all failed fs'" by simp_all
    have ih: "\<And>le inv. tryProviders rot request rest le w' inv =
            (r, worldAfter rot request (take (Suc m) rest) w', inv @ take (Suc m) rest)"
      using Cons.IH [OF m rest ffs Cons.prems(4)] .
    from fa step Suc show ?thesis
      by (cases a) (simp_all add: ih)
  qed
qed

lemma tryProviders_all_failed:
  assumes "list_all failed (attempts rot request ps w)"
  shows "tryProviders rot request ps lastError w invoked =
           (allFailed (if ps = [] then lastError
                       else observedError (last (attempts rot request ps w))),
            worldAfter rot request ps w, invoked @ ps)"
  using assms
proof (induction ps arbitrary: w lastError invoked)
  case Nil
  then show ?case by simp
next
  case (Cons config rest)
  obtain a w' where step: "rot config request w = (a, w')"
    by (cases "rot config request w")
  with Cons.prems have fa: "failed a" and fr: "list_all failed (attempts rot request rest w')"
    by simp_all
  note ih = Cons.IH [OF fr]
  have ne: "rest \<noteq> [] \<Longrightarrow> attempts rot request rest w' \<noteq> []"
    using length_attempts [of rot request rest w'] by auto
  from fa step show ?case
    by (cases a) (auto simp: ih ne)
qed

lemma errorMessage_sublist: "sublist (errorMessage e) (pre @ lastErrorText e)"
  by (cases e) auto


lemmas fallback_eval =
  executeWithFallback_def exampleRotator_def cloudflareConfig_def anthropicConfig_def
  openaiConfig_def quotaFailure_def answer_def allFailed_def errorValue_def

text \<open>
  C1. When the path resolves to a provider list, the first \<open>M\<close> attempts fail (by a
  failure result or by raising) and attempt \<open>M + 1\<close> succeeds, \<open>executeWithFallback\<close>
  returns the result of provider \<open>M + 1\<close>, and the token managers invoked are exactly the
  first \<open>M + 1\<close> providers of the list, in list order: no later provider is invoked.
\<close>

theorem first_success_returned:
  assumes "getProvidersForRoute routes path = Inr ps"
    and "M < length ps"
    and "attempts rot request (take (Suc M) ps) w = fs @ [Returned r]"
    and "list_all failed fs"
    and "success r"
  shows "executeWithFallback rot routes path request w =
           (Inr r, worldAfter rot request (take (Suc M) ps) w, take (Suc M) ps)"
  using assms(1) tryProviders_first_success [OF assms(2-5), of JNull "[]"]
  by (simp add: executeWithFallback_def)

theorem first_success_returned_witness:
  "getProvidersForRoute
     [(''/fast'', [cloudflareConfig, anthropicConfig, openaiConfig, cloudflareConfig])] ''/fast'' =
     Inr [cloudflareConfig, anthropicConfig, openaiConfig, cloudflareConfig] \<and>
   (2::nat) < length [cloudflareConfig, anthropicConfig, openaiConfig, cloudflareConfig] \<and>
   attempts exampleRotator plainRequest
     (take (Suc 2) [cloudflareConfig, anthropicConfig, openaiConfig, cloudflareConfig]) 0 =
     [Returned quotaFailure, Raised (JErrorObject ''Error'' ''network down'')] @ [Returned answer] \<and>
   list_all failed [Returned quotaFailure, Raised (JErrorObject ''Error'' ''network down'')] \<and>
   success answer \<and>
   executeWithFallback exampleRotator
     [(''/fast'', [cloudflareConfig, anthropicConfig, openaiConfig, cloudflareConfig])]
     ''/fast'' plainRequest 0 =
     (Inr answer, 3, [cloudflareConfig, anthropicConfig, openaiConfig])"
  using first_success_returned
    [of "[(''/fast'', [cloudflareConfig, anthropicConfig, openaiConfig, cloudflareConfig])]"
        "''/fast''" "[cloudflareConfig, anthropicConfig, openaiConfig, cloudflareConfig]"
        2 exampleRotator plainRequest 0
        "[Returned quotaFailure, Raised (JErrorObject ''Error'' ''network down'')]" answer]
  by (simp add: route_eval fallback_eval)

text \<open>
  C2. When the path resolves to a non-empty provider list and every attempt fails, by a
  failure result or by raising, \<open>executeWithFallback\<close> returns a value, not a fault: a
  failure whose message is the fixed prefix followed by the rendering of the last observed
  error, so that it contains the text of that error, with status 500, which is not the
  not-found status 404. Every provider was invoked, in order.
\<close>

theorem all_failed_aggregate:
  assumes "getProvidersForRoute routes path = Inr ps"
    and "ps \<noteq> []"
    and "list_all failed (attempts rot request ps w)"
  shows "\<exists>msg.
           executeWithFallback rot routes path request w =
             (Inr \<lparr>success = False, response = None, stream = None, error = Some msg,
                   statusCode = Some 500\<rparr>,
              worldAfter rot request ps w, ps) \<and>
           msg = ''All providers failed. Last error: '' @
                 lastErrorText (observedError (last (attempts rot request ps w))) \<and>
           sublist (errorMessage (observedError (last (attempts rot request ps w)))) msg \<and>
           Some (500::nat) \<noteq> Some 404"
proof -
  let ?e = "observedError (last (attempts rot request ps w))"
  let ?msg = "''All providers failed. Last error: '' @ lastErrorText ?e"
  have run: "executeWithFallback rot routes path request w =
               (Inr (allFailed ?e), worldAfter rot request ps w, ps)"
    using assms(1,2) tryProviders_all_failed [OF assms(3), of JNull "[]"]
    by (simp add: executeWithFallback_def)
  have sub: "sublist (errorMessage ?e) ?msg"
    by (rule errorMessage_sublist)
  have res: "executeWithFallback rot routes path request w =
          (Inr \<lparr>success = False, response = None, stream = None, error = Some ?msg,
                statusCode = Some 500\<rparr>,
           worldAfter rot request ps w, ps)"
    using run by (simp only: allFailed_def)
  have ne: "Some (500::nat) \<noteq> Some 404" by simp
  show ?thesis
    by (rule exI [of _ ?msg]) (rule conjI res refl sub ne)+
qed

theorem all_failed_aggregate_witness:
  "getProvidersForRoute [(''/fast'', [cloudflareConfig, anthropicConfig])] ''/fast'' =
     Inr [cloudflareConfig, anthropicConfig] \<and>
   list_all failed (attempts exampleRotator plainRequest [cloudflareConfig, anthropicConfig] 0) \<and>
   executeWithFallback exampleRotator [(''/fast'', [cloudflareConfig, anthropicConfig])]
     ''/fast'' plainRequest 0 =
     (Inr \<lparr>success = False, response = None, stream = None,
           error = Some ''All providers failed. Last error: network down'',
           statusCode = Some 500\<rparr>,
      2, [cloudflareConfig, anthropicConfig]) \<and>
   getProvidersForRoute [(''/fast'', [anthropicConfig, cloudflareConfig])] ''/fast'' =
     Inr [anthropicConfig, cloudflareConfig] \<and>
   list_all failed (attempts exampleRotator plainRequest [anthropicConfig, cloudflareConfig] 0) \<and>
   executeWithFallback exampleRotator [(''/fast'', [anthropicConfig, cloudflareConfig])]
     ''/fast'' plainRequest 0 =
     (Inr \<lparr>success = False, response = None, stream = None,
           error = Some ''All providers failed. Last error: quota exceeded'',
           statusCode = Some 500\<rparr>,
      2, [anthropicConfig, cloudflareConfig])"
  using all_failed_aggregate
      [of "[(''/fast'', [cloudflareConfig, anthropicConfig])]" "''/fast''"
          "[cloudflareConfig, anthropicConfig]" exampleRotator plainRequest 0]
    all_failed_aggregate
      [of "[(''/fast'', [anthropicConfig, cloudflareConfig])]" "''/fast''"
          "[anthropicConfig, cloudflareConfig]" exampleRotator plainRequest 0]
  by (simp add: route_eval fallback_eval)

text \<open>
  C10. When the path resolves to an empty provider list, \<open>executeWithFallback\<close> invokes no
  token manager, leaves the outside world as it is, and returns the failure with message
  \<^verbatim>\<open>All providers failed. Last error: Unknown error\<close> and status 500.
\<close>

theorem empty_provider_list:
  assumes "getProvidersForRoute routes path = Inr []"
  shows "executeWithFallback rot routes path request w =
           (Inr \<lparr>success = False, response = None, stream = None,
                 error = Some ''All providers failed. Last error: Unknown error'',
                 statusCode = Some 500\<rparr>,
            w, [])"
  using assms by (simp add: executeWithFallback_def allFailed_def)

theorem empty_provider_list_witness:
  "getProvidersForRoute [(''/fast'', [])] ''/fast'' = Inr [] \<and>
   executeWithFallback exampleRotator [(''/fast'', [])] ''/fast'' plainRequest 0 =
     (Inr \<lparr>success = False, response = None, stream = None,
           error = Some ''All providers failed. Last error: Unknown error'',
           statusCode = Some 500\<rparr>,
      0, [])"
  using empty_provider_list [of "[(''/fast'', [])]" "''/fast''" exampleRotator plainRequest 0]
  by (simp add: route_eval)

section \<open>Synthesized tool-call ids\<close>













section \<open>The read loop of the stream\<close>

lemma pump_written:
  "pump clock mdl ups n isFirst written =
     (fst (pump clock mdl ups n isFirst []), written @ snd (pump clock mdl ups n isFirst []))"
proof (induction ups arbitrary: n isFirst written)
  case Nil
  show ?case by simp
next
  case (Cons ev rest)
  show ?case
  proof (cases ev)
    case (ReadFault e)
    then show ?thesis by simp
  next
    case (ReadValue v)
    show ?thesis
    proof (cases "parseChunk v")
      case (Inl e)
      with ReadValue show ?thesis by simp
    next
      case (Inr p)
      obtain body toolCalls where p: "p = (body, toolCalls)" by (cases p)
      show ?thesis
      proof (cases "chunkDelta (clock n) isFirst body toolCalls")
        case None
        with ReadValue Inr p Cons.IH [of "Suc n" isFirst written] show ?thesis by simp
      next
        case (Some d)
        let ?f = "ChunkFrame (createStreamChunk d mdl None)"
        from ReadValue Inr p Some Cons.IH [of "Suc n" False "written @ [?f]"]
          Cons.IH [of "Suc n" False "[?f]"]
        show ?thesis by simp
      qed
    qed
  qed
qed

lemma pump_fault:
  "fst (pump clock mdl ups n isFirst written) = None \<longleftrightarrow> list_all consumable ups"
proof (induction ups arbitrary: n isFirst written)
  case Nil
  show ?case by simp
next
  case (Cons ev rest)
  show ?case
  proof (cases ev)
    case (ReadFault e)
    then show ?thesis by simp
  next
    case (ReadValue v)
    with Cons.IH show ?thesis
      by (auto split: sum.splits option.splits)
  qed
qed

lemma pump_content: "list_all isContent (snd (pump clock mdl ups n isFirst []))"
proof (induction ups arbitrary: n isFirst)
  case Nil
  show ?case by simp
next
  case (Cons ev rest)
  show ?case
  proof (cases ev)
    case (ReadFault e)
    then show ?thesis by simp
  next
    case (ReadValue v)
    show ?thesis
      using ReadValue Cons.IH
      by (auto simp: createStreamChunk_def pump_written [where written = "[f]" for f]
               split: sum.splits option.splits)
  qed
qed



lemma parse_carries:
  "parseChunk v = Inr (body, toolCalls) \<Longrightarrow>
   chunkText v = body \<and> chunkToolCalls v = (case toolCalls of None \<Rightarrow> [] | Some calls \<Rightarrow> calls)"
  by (cases v rule: parseChunk.cases) (auto simp: stringOrEmpty_def split: if_splits option.splits)

lemma convertToolCalls_names:
  "map (\<lambda>t. (tc_name t, tc_arguments t)) (convertToolCalls now calls) =
   map (\<lambda>t. (cf_name t, cf_arguments t)) calls"
proof -
  have "map (\<lambda>t. (tc_name t, tc_arguments t)) (convertToolCalls now calls) =
        map (\<lambda>x. (cf_name (snd x), cf_arguments (snd x))) (enumerate 0 calls)"
    by (simp add: convertToolCalls_def case_prod_beta o_def)
  also have "\<dots> = map (\<lambda>t. (cf_name t, cf_arguments t)) (map snd (enumerate 0 calls))"
    by (simp only: map_map o_def)
  finally show ?thesis by simp
qed

lemma chunkDelta_None:
  "parseChunk v = Inr (body, toolCalls) \<Longrightarrow>
   chunkDelta now isFirst body toolCalls = None \<longleftrightarrow> \<not> carriesData v"
  by (cases toolCalls) (auto simp: chunkDelta_def carriesData_def dest!: parse_carries)

lemma chunkDelta_emits:
  "parseChunk v = Inr (body, toolCalls) \<Longrightarrow> chunkDelta now isFirst body toolCalls = Some d \<Longrightarrow>
   emitsFor v (ChunkFrame (createStreamChunk d mdl None))"
  by (cases toolCalls)
     (auto simp: chunkDelta_def createStreamChunk_def convertToolCalls_names
           dest!: parse_carries split: if_splits)

lemma pump_emits:
  "list_all2 emitsFor (filter carriesData (valuesRead ups)) (snd (pump clock mdl ups n isFirst []))"
proof (induction ups arbitrary: n isFirst)
  case Nil
  show ?case by simp
next
  case (Cons ev rest)
  show ?case
  proof (cases ev)
    case (ReadFault e)
    then show ?thesis by simp
  next
    case (ReadValue v)
    show ?thesis
    proof (cases "parseChunk v")
      case (Inl e)
      with ReadValue show ?thesis by simp
    next
      case (Inr p)
      obtain body toolCalls where p: "p = (body, toolCalls)" by (cases p)
      show ?thesis
      proof (cases "chunkDelta (clock n) isFirst body toolCalls")
        case None
        with Inr p have "\<not> carriesData v" by (simp add: chunkDelta_None)
        with None ReadValue Inr p Cons.IH [of "Suc n" isFirst] show ?thesis by simp
      next
        case (Some d)
        with Inr p have c: "carriesData v"
          using chunkDelta_None [of v body toolCalls "clock n" isFirst] by auto
        from Inr p have pv: "parseChunk v = Inr (body, toolCalls)" by simp
        have e: "emitsFor v (ChunkFrame (createStreamChunk d mdl None))"
          using pv Some by (rule chunkDelta_emits)
        from Some ReadValue Inr p c e Cons.IH [of "Suc n" False] show ?thesis
          by (simp add: pump_written [where written = "[g]" for g])
      qed
    qed
  qed
qed


lemma content_not_terminal: "list_all isContent ws \<Longrightarrow> filter isTerminal ws = []"
  by (induction ws) (auto elim: isContent.elims)

lemma content_not_done: "list_all isContent ws \<Longrightarrow> count_list ws DoneFrame = 0"
  by (induction ws) auto

lemma handleStream_exhausted:
  assumes "list_all consumable cfStream"
  shows "handleStream clock mdl params cfStream =
     \<lparr>success = True, response = None,
      stream = Some
        \<lparr>frames = snd (pump clock mdl cfStream 0 True []) @
           [ChunkFrame (createStreamChunk emptyDelta mdl
              (Some (if p_tools params \<noteq> None then ''tool_calls'' else ''stop''))),
            DoneFrame],
         errorLog = [], closed = True\<rparr>,
      error = None, statusCode = None\<rparr>"
proof -
  obtain f ws where p: "pump clock mdl cfStream 0 True [] = (f, ws)"
    by (cases "pump clock mdl cfStream 0 True []")
  with assms pump_fault [of clock mdl cfStream 0 True "[]"] have "f = None" by simp
  with p show ?thesis by (simp add: handleStream_def)
qed

lemma handleStream_fault:
  assumes "\<not> list_all consumable cfStream"
  shows "\<exists>e. handleStream clock mdl params cfStream =
     \<lparr>success = True, response = None,
      stream = Some
        \<lparr>frames = snd (pump clock mdl cfStream 0 True []), errorLog = [e], closed = True\<rparr>,
      error = None, statusCode = None\<rparr>"
proof -
  obtain f ws where p: "pump clock mdl cfStream 0 True [] = (f, ws)"
    by (cases "pump clock mdl cfStream 0 True []")
  with assms pump_fault [of clock mdl cfStream 0 True "[]"] obtain e where "f = Some e"
    by (cases f) auto
  with p show ?thesis by (simp add: handleStream_def)
qed

lemma chatParams_tools:
  "p_tools (chatParams request) \<noteq> None \<longleftrightarrow>
   (case tools request of Some (t # ts) \<Rightarrow> True | _ \<Rightarrow> False)"
  by (simp add: chatParams_def split: option.splits list.splits)

section \<open>Properties of the adapter\<close>

lemma showInt_examples:
  "showInt 1730000000000 = ''1730000000000''" "showInt 0 = ''0''" "showInt 1 = ''1''"
  "showInt 2 = ''2''"
  by code_simp+

lemma handleNonStream_choice:
  "\<exists>resp c.
     handleNonStream now mdl upstream =
       Inr \<lparr>success = True, response = Some resp, stream = None, error = None,
            statusCode = None\<rparr> \<and>
     resp_choices resp = [c] \<and>
     (hasToolCalls (upstreamToolCalls upstream) \<longrightarrow>
        msg_content (ch_message c) = None \<and>
        msg_tool_calls (ch_message c) =
          Some (convertToolCalls now (the (upstreamToolCalls upstream))) \<and>
        ch_finish_reason c = ''tool_calls'') \<and>
     (\<not> hasToolCalls (upstreamToolCalls upstream) \<longrightarrow>
        msg_content (ch_message c) = Some (upstreamContent upstream) \<and>
        msg_tool_calls (ch_message c) = None \<and>
        ch_finish_reason c = ''stop'')"
  by (cases "hasToolCalls (upstreamToolCalls upstream)")
     (simp_all add: handleNonStream_def createOpenAIResponse_def Let_def)

text \<open>
  C3. For every upstream result, \<open>handleNonStream\<close> returns a success whose response has
  exactly one choice; when the upstream result has tool calls (a non-empty
  \<^verbatim>\<open>tool_calls\<close> array) the content of its message is null and its finish reason is
  \<^verbatim>\<open>tool_calls\<close>; otherwise its finish reason is \<^verbatim>\<open>stop\<close>, the value the response
  normalizer sets.
\<close>

theorem non_stream_finish_reason:
  "\<exists>resp c.
     handleNonStream now mdl upstream =
       Inr \<lparr>success = True, response = Some resp, stream = None, error = None,
            statusCode = None\<rparr> \<and>
     resp_choices resp = [c] \<and>
     (hasToolCalls (upstreamToolCalls upstream) \<longrightarrow>
        msg_content (ch_message c) = None \<and> ch_finish_reason c = ''tool_calls'') \<and>
     (\<not> hasToolCalls (upstreamToolCalls upstream) \<longrightarrow> ch_finish_reason c = ''stop'')"
  using handleNonStream_choice [of now mdl upstream] by blast

theorem non_stream_finish_reason_witness:
  "hasToolCalls (upstreamToolCalls (UpObject (Some ''calling'') (Some [weatherCall]))) \<and>
   handleNonStream (\<lambda>i. 1730000000000) ''llama-3''
       (UpObject (Some ''calling'') (Some [weatherCall])) =
     Inr \<lparr>success = True,
          response = Some
            \<lparr>resp_model = ''llama-3'',
             resp_choices =
               [\<lparr>ch_index = 0,
                 ch_message =
                   \<lparr>msg_role = ''assistant'', msg_content = None,
                    msg_tool_calls =
                      Some [\<lparr>tc_id = ''call_1730000000000_0'', tc_type = ''function'',
                             tc_name = ''get_weather'', tc_arguments = cf_arguments weatherCall\<rparr>]\<rparr>,
                 ch_finish_reason = ''tool_calls''\<rparr>]\<rparr>,
          stream = None, error = None, statusCode = None\<rparr> \<and>
   \<not> hasToolCalls (upstreamToolCalls (UpString ''4'')) \<and>
   handleNonStream (\<lambda>i. 1730000000000) ''llama-3'' (UpString ''4'') =
     Inr \<lparr>success = True,
          response = Some
            \<lparr>resp_model = ''llama-3'',
             resp_choices =
               [\<lparr>ch_index = 0,
                 ch_message =
                   \<lparr>msg_role = ''assistant'', msg_content = Some ''4'', msg_tool_calls = None\<rparr>,
                 ch_finish_reason = ''stop''\<rparr>]\<rparr>,
          stream = None, error = None, statusCode = None\<rparr>"
  using non_stream_finish_reason
      [of "\<lambda>i. 1730000000000" "''llama-3''" "UpObject (Some ''calling'') (Some [weatherCall])"]
    non_stream_finish_reason [of "\<lambda>i. 1730000000000" "''llama-3''" "UpString ''4''"]
  by (simp add: handleNonStream_def createOpenAIResponse_def convertToolCalls_def
        weatherCall_def showInt_examples Let_def)

lemmas stream_eval =
  handleStream_def chunkDelta_def createStreamChunk_def emptyDelta_def chatParams_def
  convertToolCalls_def convertTools_def convertMessages_def stringOrEmpty_def carriesData_def
  weatherCall_def timeCall_def weatherTool_def toolRequest_def streamRequest_def
  showInt_examples Let_def









text \<open>
  C6, as the code has it. \<open>handleStream\<close> returns a success whose stream is always closed.
  When every read can be consumed, nothing is logged and the frames end with the terminal
  chunk and the sentinel. When a read faults or a value cannot be decoded, the fault is
  logged once and the frames are only the content chunks for the chunks read before it:
  no chunk with a finish reason, no sentinel and no error frame are written.
\<close>

theorem stream_closed_after_fault:
  "\<exists>out. handleStream clock mdl params cfStream =
           \<lparr>success = True, response = None, stream = Some out, error = None,
            statusCode = None\<rparr> \<and>
         closed out \<and>
         (list_all consumable cfStream \<longrightarrow>
            errorLog out = [] \<and>
            (\<exists>written.
               frames out = written @
                 [ChunkFrame (createStreamChunk emptyDelta mdl
                    (Some (if p_tools params \<noteq> None then ''tool_calls'' else ''stop''))),
                  DoneFrame] \<and>
               list_all isContent written)) \<and>
         (\<not> list_all consumable cfStream \<longrightarrow>
            length (errorLog out) = 1 \<and>
            list_all isContent (frames out) \<and>
            filter isTerminal (frames out) = [] \<and>
            count_list (frames out) DoneFrame = 0 \<and>
            list_all2 emitsFor (filter carriesData (valuesRead cfStream)) (frames out))"
proof (cases "list_all consumable cfStream")
  case True
  show ?thesis
    using True pump_content [of clock mdl cfStream 0 True]
    by (simp add: handleStream_exhausted [OF True])
next
  case False
  let ?written = "snd (pump clock mdl cfStream 0 True [])"
  from handleStream_fault [OF False, of clock mdl params] obtain e where
    h: "handleStream clock mdl params cfStream =
     \<lparr>success = True, response = None,
      stream = Some \<lparr>frames = ?written, errorLog = [e], closed = True\<rparr>,
      error = None, statusCode = None\<rparr>" by blast
  have content: "list_all isContent ?written" by (rule pump_content)
  from h False content content_not_terminal [OF content] content_not_done [OF content]
    pump_emits [of cfStream clock mdl 0 True]
  show ?thesis by simp
qed

theorem stream_closed_after_fault_witness:
  "\<not> list_all consumable
       [ReadValue (ChunkString ''Hel''), ReadFault (JErrorObject ''Error'' ''connection reset''),
        ReadValue (ChunkString ''lo'')] \<and>
   handleStream (\<lambda>n i. 1730000000000) ''llama-3'' (chatParams streamRequest)
       [ReadValue (ChunkString ''Hel''), ReadFault (JErrorObject ''Error'' ''connection reset''),
        ReadValue (ChunkString ''lo'')] =
     \<lparr>success = True, response = None,
      stream = Some
        \<lparr>frames =
           [ChunkFrame \<lparr>sc_model = ''llama-3'',
              sc_delta = \<lparr>d_role = Some ''assistant'', d_content = Some ''Hel'',
                          d_tool_calls = None\<rparr>,
              sc_finish_reason = None\<rparr>],
         errorLog = [JErrorObject ''Error'' ''connection reset''], closed = True\<rparr>,
      error = None, statusCode = None\<rparr> \<and>
   list_all consumable [ReadValue (ChunkString ''Hel'')] \<and>
   handleStream (\<lambda>n i. 1730000000000) ''llama-3'' (chatParams streamRequest)
       [ReadValue (ChunkString ''Hel'')] =
     \<lparr>success = True, response = None,
      stream = Some
        \<lparr>frames =
           [ChunkFrame \<lparr>sc_model = ''llama-3'',
              sc_delta = \<lparr>d_role = Some ''assistant'', d_content = Some ''Hel'',
                          d_tool_calls = None\<rparr>,
              sc_finish_reason = None\<rparr>,
            ChunkFrame \<lparr>sc_model = ''llama-3'',
              sc_delta = \<lparr>d_role = None, d_content = None, d_tool_calls = None\<rparr>,
              sc_finish_reason = Some ''stop''\<rparr>,
            DoneFrame],
         errorLog = [], closed = True\<rparr>,
      error = None, statusCode = None\<rparr>"
  using stream_closed_after_fault
      [of "\<lambda>n i. 1730000000000" "''llama-3''" "chatParams streamRequest"
        "[ReadValue (ChunkString ''Hel''), ReadFault (JErrorObject ''Error'' ''connection reset''),
          ReadValue (ChunkString ''lo'')]"]
    stream_closed_after_fault
      [of "\<lambda>n i. 1730000000000" "''llama-3''" "chatParams streamRequest"
        "[ReadValue (ChunkString ''Hel'')]"]
  by (simp add: stream_eval)

text \<open>
  C6 as stated fails: when the second read faults, the caller has a success response whose
  stream holds the one content chunk written before the fault and is then closed, with
  neither a terminal chunk and sentinel nor an error.
\<close>

theorem truncated_stream_counterexample:
  "handleStream (\<lambda>n i. 1730000000000) ''llama-3'' (chatParams streamRequest)
       [ReadValue (ChunkString ''Hel''), ReadFault (JErrorObject ''Error'' ''connection reset'')] =
     \<lparr>success = True, response = None,
      stream = Some
        \<lparr>frames =
           [ChunkFrame \<lparr>sc_model = ''llama-3'',
              sc_delta = \<lparr>d_role = Some ''assistant'', d_content = Some ''Hel'',
                          d_tool_calls = None\<rparr>,
              sc_finish_reason = None\<rparr>],
         errorLog = [JErrorObject ''Error'' ''connection reset''], closed = True\<rparr>,
      error = None, statusCode = None\<rparr> \<and>
   \<not> isTerminal (ChunkFrame \<lparr>sc_model = ''llama-3'',
              sc_delta = \<lparr>d_role = Some ''assistant'', d_content = Some ''Hel'',
                          d_tool_calls = None\<rparr>,
              sc_finish_reason = None\<rparr>)"
  by (simp add: stream_eval)






end
